theory Spec2Isabelle
  imports Main "HOL-Library.AList"
begin

section \<open>Speaker diarization glue: \<open>deepdub/deepdub_clusterer.py\<close>\<close>

text \<open>
  The module is one class, \<open>DeepdubClusterer\<close>, around three external collaborators:
  the speaker-embedding network of \<open>deep_speaker\<close>, k-means of \<open>sklearn\<close> and the
  \<open>pandas\<close> table that holds the utterances. The collaborators are not part of the
  module; they enter the model as the fields of a record of functions, and every
  exception they may raise is a value \<open>Inl\<close> of a sum type. What the module itself does
  (paths, column reads and writes, the order of calls, name resolution, the binding of
  arguments) is written out.
\<close>

subsection \<open>Exceptions\<close>

text \<open>
  An exception raised inside a collaborator is \<open>Raised\<close> with the collaborator it comes
  from and its message; the module catches nothing, so it reaches the caller unchanged.
  \<open>KeyError\<close> and \<open>ValueError\<close> are the table's own (a missing column, a column of the
  wrong length); \<open>NameError\<close> and \<open>TypeError\<close> are the interpreter's (a name bound
  nowhere, arguments that do not fit the parameters).
\<close>

datatype origin =
  WeightLoader | AudioReader | FrameSampler | EmbeddingNet | ArrayLib | ClusteringLib

datatype error =
    NameError string
  | TypeError string
  | KeyError string
  | ValueError string
  | Raised origin string

subsection \<open>The record collection\<close>

text \<open>
  A cell of the table is a string (\<open>hash\<close>, \<open>sentence\<close>), a vector (\<open>embedding\<close>) or an
  integer (\<open>label\<close>). The element type of a vector is left open: nothing the module
  does looks inside one.
\<close>

datatype 'a cell = StrCell string | VecCell "'a list" | IntCell int

text \<open>
  The table is column oriented, as a \<open>pandas.DataFrame\<close> is: the number of rows of its
  index and the columns in their order, each under its name.
\<close>

record 'a dataframe =
  index :: nat
  columns :: "(string \<times> 'a cell list) list"

text \<open>Every column of a well-formed table has one cell per row, and no name is used twice.\<close>

definition wf_df :: "'a dataframe \<Rightarrow> bool" where
  "wf_df df =
     (list_all (\<lambda>c. length (snd c) = index df) (columns df) \<and> distinct (map fst (columns df)))"

text \<open>\<open>df[c]\<close>: the column, or \<open>KeyError\<close> when the table has none of that name.\<close>

definition get_column :: "'a dataframe \<Rightarrow> string \<Rightarrow> error + 'a cell list" where
  "get_column df c =
     (case map_of (columns df) c of None \<Rightarrow> Inl (KeyError c) | Some vs \<Rightarrow> Inr vs)"

text \<open>
  \<open>df[c] = vs\<close>: \<open>ValueError\<close> when \<open>vs\<close> has not one value per row; otherwise the column
  \<open>c\<close> is replaced where it stands, or added after the last column when it is new.
\<close>

definition set_column :: "'a dataframe \<Rightarrow> string \<Rightarrow> 'a cell list \<Rightarrow> error + 'a dataframe" where
  "set_column df c vs =
     (if length vs \<noteq> index df
      then Inl (ValueError ''Length of values does not match length of index'')
      else Inr (df\<lparr>columns := AList.update c vs (columns df)\<rparr>))"

text \<open>
  What \<open>np.array\<close> returns: a matrix, given by its rows, or an array of some other kind
  (one dimension, strings, objects), given by the values it was made from.
\<close>

datatype 'a ndarray = Matrix "'a list list" | NoMatrix "'a cell list"

subsection \<open>The external collaborators\<close>

text \<open>
  \<^item> \<open>load_weights path\<close> is \<open>self.model.m.load_weights(path, by_name=True)\<close>: \<open>None\<close> when
    the weights are loaded, the message of the exception otherwise;
  \<^item> \<open>read_mfcc path rate\<close> and \<open>sample_from_mfcc mfcc n\<close> are the functions of
    \<open>deep_speaker\<close> of these names, \<open>SAMPLE_RATE\<close> and \<open>NUM_FRAMES\<close> its constants;
  \<^item> \<open>predict frames\<close> is \<open>m.predict(np.expand_dims(frames, axis=0))\<close> of the network: the
    numbers of the array it returns, or the message of the exception;
  \<^item> \<open>kmeans_fit n_clusters random_state X\<close> is
    \<open>KMeans(n_clusters=n_clusters, random_state=random_state).fit(X)\<close>: the labels
    \<open>labels_\<close> together with the fitted object, or the message of the exception;
  \<^item> \<open>np_other\<close> is \<open>np.array\<close> on a list that is not a list of vectors of one
    length: an array that is no matrix, or the message of the exception (which of the
    two depends on the version of \<open>numpy\<close>);
  \<^item> \<open>py_str\<close> is what an f-string writes for a value that is not a string.

  When it is loaded the module seeds the global generators of \<open>random\<close> and \<open>numpy\<close>
  with 123. Nothing in the class reads them; they matter inside the collaborators only
  (the sampling of the frame window), which are functions here.
\<close>

record ('a, 'm, 'k) externals =
  load_weights :: "string \<Rightarrow> string option"
  read_mfcc :: "string \<Rightarrow> nat \<Rightarrow> string + 'm"
  sample_from_mfcc :: "'m \<Rightarrow> nat \<Rightarrow> string + 'm"
  predict :: "'m \<Rightarrow> string + 'a list"
  SAMPLE_RATE :: nat
  NUM_FRAMES :: nat
  kmeans_fit :: "int \<Rightarrow> int \<Rightarrow> 'a ndarray \<Rightarrow> string + (int list \<times> 'k)"
  np_other :: "'a cell list \<Rightarrow> string + 'a ndarray"
  py_str :: "'a cell \<Rightarrow> string"

text \<open>
  \<open>np.array(column.tolist())\<close>: vectors of one common length are stacked into a matrix, row
  \<open>i\<close> being the \<open>i\<close>-th value of the list (no vector at all gives the empty array, a
  matrix of no rows here). Any other list is left to \<open>np_other\<close>.
\<close>

fun vec_rows :: "'a cell list \<Rightarrow> 'a list list option" where
  "vec_rows [] = Some []"
| "vec_rows (VecCell v # cs) =
     (case vec_rows cs of None \<Rightarrow> None | Some rows \<Rightarrow> Some (v # rows))"
| "vec_rows (c # cs) = None"

definition np_array :: "('a, 'm, 'k) externals \<Rightarrow> 'a cell list \<Rightarrow> error + 'a ndarray" where
  "np_array ext cs =
     (case vec_rows cs of
        Some rows \<Rightarrow>
          if list_all (\<lambda>r. length r = length (hd rows)) rows then Inr (Matrix rows)
          else (case np_other ext cs of Inl msg \<Rightarrow> Inl (Raised ArrayLib msg) | Inr X \<Rightarrow> Inr X)
      | None \<Rightarrow>
          (case np_other ext cs of Inl msg \<Rightarrow> Inl (Raised ArrayLib msg) | Inr X \<Rightarrow> Inr X))"

text \<open>
  The calls that reach outside the process or start a collaborator's work are recorded, in
  the order they happen: reading a weight file, reading an audio file, fitting k-means,
  fitting the projection and showing the figure.
\<close>

datatype event =
    LoadWeights string
  | ReadAudio string
  | FitKMeans int int
  | FitPCA
  | ShowFigure

subsection \<open>The object and its construction\<close>

text \<open>
  The attributes of an instance: the weight file loaded into \<open>self.model\<close>, the directory
  of the audio segments and the table.
\<close>

record 'a clusterer =
  model :: "string option"
  AUDIO_OUTPUT_DIR :: string
  sentence_df :: "'a dataframe"

definition default_model_path :: string where
  "default_model_path = ''./pretrained_models/ResCNN_triplet_training_checkpoint_265.h5''"

text \<open>
  \<open>__init__\<close>: the attributes are set, then the weights are loaded from \<open>model_path\<close> when
  one is given and from the default path otherwise. An exception of the loader leaves the
  constructor, so no object comes back.
\<close>

definition init ::
  "('a, 'm, 'k) externals \<Rightarrow> string \<Rightarrow> 'a dataframe \<Rightarrow> string option
     \<Rightarrow> (error + 'a clusterer) \<times> event list" where
  "init ext project_name df model_path =
     (let self = \<lparr>model = None,
                  AUDIO_OUTPUT_DIR = ''./output_dir/'' @ project_name @ ''/audio_segments'',
                  sentence_df = df\<rparr>;
          path = (case model_path of Some p \<Rightarrow> p | None \<Rightarrow> default_model_path)
      in case load_weights ext path of
           Some msg \<Rightarrow> (Inl (Raised WeightLoader msg), [LoadWeights path])
         | None \<Rightarrow> (Inr (self\<lparr>model := Some path\<rparr>), [LoadWeights path]))"

subsection \<open>Embeddings\<close>

text \<open>An f-string writes a string as it is and anything else through its own formatting.\<close>

fun format_cell :: "('a, 'm, 'k) externals \<Rightarrow> 'a cell \<Rightarrow> string" where
  "format_cell ext (StrCell s) = s"
| "format_cell ext c = py_str ext c"

text \<open>The file of the segment with hash \<open>h\<close>: \<open>f'{self.AUDIO_OUTPUT_DIR}/{h}_vocals.wav'\<close>.\<close>

definition segment_path :: "('a, 'm, 'k) externals \<Rightarrow> 'a clusterer \<Rightarrow> 'a cell \<Rightarrow> string" where
  "segment_path ext self h = AUDIO_OUTPUT_DIR self @ ''/'' @ format_cell ext h @ ''_vocals.wav''"

text \<open>
  The names the module binds at its top level: its imports and the class. A name used in
  a method that is neither a parameter or local of the method nor in this list (nor a
  builtin) raises \<open>NameError\<close> when it is evaluated.
\<close>

definition module_globals :: "string list" where
  "module_globals =
     [''random'', ''np'', ''read_mfcc'', ''sample_from_mfcc'', ''SAMPLE_RATE'', ''NUM_FRAMES'',
      ''DeepSpeakerModel'', ''KMeans'', ''PCA'', ''pd'', ''DeepdubClusterer'']"

definition bound_name :: "string list \<Rightarrow> string \<Rightarrow> bool" where
  "bound_name locals n = (n \<in> set locals \<or> n \<in> set module_globals)"

text \<open>\<open>embedding.reshape((512,))\<close>: the array as one vector, when it has 512 numbers.\<close>

definition reshape_512 :: "'a list \<Rightarrow> error + 'a cell" where
  "reshape_512 v =
     (if length v = 512 then Inr (VecCell v)
      else Inl (ValueError ''cannot reshape array into shape (512,)''))"

text \<open>
  \<open>__generate_embedding\<close>: the audio file is read and a frame window is sampled; then the
  call \<open>model.m.predict(...)\<close> evaluates the name \<open>model\<close>. The names of the method are
  \<open>self\<close>, \<open>h\<close>, \<open>mfcc\<close> and \<open>embedding\<close>; a name that is none of them is looked up among
  the globals of the module, and raises \<open>NameError\<close> when it is not there, before
  \<open>predict\<close> and \<open>reshape((512,))\<close> run. (The network of the instance is \<open>self.model\<close>.)
\<close>

definition generate_embedding ::
  "('a, 'm, 'k) externals \<Rightarrow> 'a clusterer \<Rightarrow> 'a cell \<Rightarrow> (error + 'a cell) \<times> event list" where
  "generate_embedding ext self h =
     (let path = segment_path ext self h in
      case read_mfcc ext path (SAMPLE_RATE ext) of
        Inl msg \<Rightarrow> (Inl (Raised AudioReader msg), [ReadAudio path])
      | Inr audio \<Rightarrow>
          (case sample_from_mfcc ext audio (NUM_FRAMES ext) of
             Inl msg \<Rightarrow> (Inl (Raised FrameSampler msg), [ReadAudio path])
           | Inr mfcc \<Rightarrow>
               if \<not> bound_name [''self'', ''h'', ''mfcc'', ''embedding''] ''model''
               then (Inl (NameError ''model''), [ReadAudio path])
               else (case predict ext mfcc of
                       Inl msg \<Rightarrow> (Inl (Raised EmbeddingNet msg), [ReadAudio path])
                     | Inr embedding \<Rightarrow> (reshape_512 embedding, [ReadAudio path]))))"

text \<open>
  \<open>applymap\<close> calls the function on the values of the column, first to last, and stops at
  the first exception.
\<close>

fun applymap ::
  "('c \<Rightarrow> (error + 'd) \<times> event list) \<Rightarrow> 'c list \<Rightarrow> (error + 'd list) \<times> event list" where
  "applymap f [] = (Inr [], [])"
| "applymap f (x # xs) =
     (case f x of
        (Inl e, evs) \<Rightarrow> (Inl e, evs)
      | (Inr y, evs) \<Rightarrow>
          (case applymap f xs of
             (Inl e, evs') \<Rightarrow> (Inl e, evs @ evs')
           | (Inr ys, evs') \<Rightarrow> (Inr (y # ys), evs @ evs')))"

text \<open>
  \<open>get_embeddings\<close>: the column \<open>hash\<close> is mapped through \<open>__generate_embedding\<close> and the
  result stored as the column \<open>embedding\<close> of the instance's table, which is returned.
  The result is the returned table or the exception, the instance afterwards, and the
  events.
\<close>

definition get_embeddings ::
  "('a, 'm, 'k) externals \<Rightarrow> 'a clusterer
     \<Rightarrow> (error + 'a dataframe) \<times> 'a clusterer \<times> event list" where
  "get_embeddings ext self =
     (case get_column (sentence_df self) ''hash'' of
        Inl e \<Rightarrow> (Inl e, self, [])
      | Inr hs \<Rightarrow>
          (case applymap (generate_embedding ext self) hs of
             (Inl e, evs) \<Rightarrow> (Inl e, self, evs)
           | (Inr vs, evs) \<Rightarrow>
               (case set_column (sentence_df self) ''embedding'' vs of
                  Inl e \<Rightarrow> (Inl e, self, evs)
                | Inr df' \<Rightarrow> (Inr df', self\<lparr>sentence_df := df'\<rparr>, evs))))"

text \<open>The events that are the reading of an audio file.\<close>

fun audio_read :: "event \<Rightarrow> bool" where
  "audio_read (ReadAudio p) = True"
| "audio_read e = False"

subsection \<open>Clustering\<close>

text \<open>
  \<open>cluster\<close>: the column \<open>embedding\<close> is stacked, k-means is fitted on it with the given
  number of clusters and seed (\<open>random_state\<close>, 123 when the caller gives none), and its
  labels are stored as the column \<open>label\<close>. The method checks none of its arguments.
  The seed is an integer, as the default is.
\<close>

definition embeddings_of ::
  "('a, 'm, 'k) externals \<Rightarrow> 'a clusterer \<Rightarrow> error + 'a ndarray" where
  "embeddings_of ext self =
     (case get_column (sentence_df self) ''embedding'' of
        Inl e \<Rightarrow> Inl e
      | Inr col \<Rightarrow> np_array ext col)"

definition cluster ::
  "('a, 'm, 'k) externals \<Rightarrow> 'a clusterer \<Rightarrow> int \<Rightarrow> int
     \<Rightarrow> (error + 'a dataframe \<times> 'k) \<times> 'a clusterer \<times> event list" where
  "cluster ext self n_clusters random_state =
     (case embeddings_of ext self of
        Inl e \<Rightarrow> (Inl e, self, [])
      | Inr embeddings \<Rightarrow>
          (case kmeans_fit ext n_clusters random_state embeddings of
             Inl msg \<Rightarrow>
               (Inl (Raised ClusteringLib msg), self, [FitKMeans n_clusters random_state])
           | Inr (labels, kmeans) \<Rightarrow>
               (case set_column (sentence_df self) ''label'' (map IntCell labels) of
                  Inl e \<Rightarrow> (Inl e, self, [FitKMeans n_clusters random_state])
                | Inr df' \<Rightarrow>
                    (Inr (df', kmeans), self\<lparr>sentence_df := df'\<rparr>,
                     [FitKMeans n_clusters random_state]))))"

definition cluster_default ::
  "('a, 'm, 'k) externals \<Rightarrow> 'a clusterer \<Rightarrow> int
     \<Rightarrow> (error + 'a dataframe \<times> 'k) \<times> 'a clusterer \<times> event list" where
  "cluster_default ext self n_clusters = cluster ext self n_clusters 123"

text \<open>
  The labels a run of \<open>cluster\<close> has assigned: the column \<open>label\<close> of the table it
  returns, or the exception it raised.
\<close>

definition assigned_labels ::
  "(error + 'a dataframe \<times> 'k) \<times> 'a clusterer \<times> event list \<Rightarrow> error + 'a cell list" where
  "assigned_labels run =
     (case fst run of Inl e \<Rightarrow> Inl e | Inr (df, kmeans) \<Rightarrow> get_column df ''label'')"

subsection \<open>The scatter plot\<close>

text \<open>
  \<open>generate_scatter_3d\<close> is defined in the class with an empty parameter list. Its body
  builds \<open>PCA(n_components=3)\<close> and then evaluates \<open>self.sentence_df\<close>, where \<open>self\<close> is
  not one of its names \<open>pca\<close>, \<open>embeddings\<close>, \<open>embeddings_df\<close>, \<open>total_var\<close>, \<open>fig\<close>. What
  would follow on a labelled table is the fit of the projection, the name \<open>px\<close> of the
  plotting library, which the module does not import either, and the figure.
\<close>

definition generate_scatter_3d_params :: "string list" where
  "generate_scatter_3d_params = []"

definition generate_scatter_3d_locals :: "string list" where
  "generate_scatter_3d_locals = [''pca'', ''embeddings'', ''embeddings_df'', ''total_var'', ''fig'']"

definition generate_scatter_3d_body :: "(error + unit) \<times> event list" where
  "generate_scatter_3d_body =
     (if \<not> bound_name generate_scatter_3d_locals ''self'' then (Inl (NameError ''self''), [])
      else if \<not> bound_name generate_scatter_3d_locals ''px'' then (Inl (NameError ''px''), [FitPCA])
      else (Inr (), [FitPCA, ShowFigure]))"

text \<open>
  Calling a method on an instance passes the instance as the first positional argument,
  before the \<open>n_args\<close> positional arguments of the call; \<open>kwargs\<close> are the names of its
  keyword arguments. A keyword that names no parameter, or more positional arguments than
  parameters, is \<open>TypeError\<close>, raised while the arguments are bound and so before the body
  starts.
\<close>

definition call_generate_scatter_3d ::
  "'a clusterer \<Rightarrow> nat \<Rightarrow> string list \<Rightarrow> (error + unit) \<times> 'a clusterer \<times> event list" where
  "call_generate_scatter_3d self n_args kwargs =
     (if \<not> list_all (\<lambda>k. k \<in> set generate_scatter_3d_params) kwargs
      then (Inl (TypeError ''generate_scatter_3d() got an unexpected keyword argument''), self, [])
      else if length generate_scatter_3d_params < Suc n_args
      then (Inl (TypeError ''generate_scatter_3d() takes 0 positional arguments''), self, [])
      else (fst generate_scatter_3d_body, self, snd generate_scatter_3d_body))"

subsection \<open>A small project for concrete runs\<close>

text \<open>
  Collaborators for the examples below: the one weight file \<open>weights.h5\<close>, the one
  segment \<open>a\<close> of the project \<open>demo\<close>, a network that answers 512 zeros, and a
  clustering routine that rejects what k-means rejects (no matrix, no rows, a number of
  clusters that is not positive or is larger than the number of rows) and otherwise puts
  every row into cluster 0; a list that cannot be stacked becomes an array that is no
  matrix.
\<close>

definition demo_ext :: "(nat, nat, unit) externals" where
  "demo_ext =
     \<lparr>load_weights = (\<lambda>p. if p = ''weights.h5'' then None else Some ''No such file''),
      read_mfcc =
        (\<lambda>p rate. if p = ''./output_dir/demo/audio_segments/a_vocals.wav'' then Inr 300
                  else Inl ''No such file''),
      sample_from_mfcc = (\<lambda>m n. Inr n),
      predict = (\<lambda>m. Inr (replicate 512 0)),
      SAMPLE_RATE = 16000,
      NUM_FRAMES = 160,
      kmeans_fit =
        (\<lambda>k r X.
           case X of
             NoMatrix cs \<Rightarrow> Inl ''Expected 2D array''
           | Matrix rows \<Rightarrow>
               if rows = [] then Inl ''Expected 2D array, got 1D array instead''
               else if k \<le> 0 then Inl ''n_clusters must be positive''
               else if int (length rows) < k then Inl ''n_samples should be >= n_clusters''
               else Inr (map (\<lambda>v. 0) rows, ())),
      np_other = (\<lambda>cs. Inr (NoMatrix cs)),
      py_str = (\<lambda>c. ''?'')\<rparr>"

definition demo_df :: "nat dataframe" where
  "demo_df =
     \<lparr>index = 2,
      columns = [(''hash'', [StrCell ''a'', StrCell ''b'']),
                 (''sentence'', [StrCell ''hello'', StrCell ''bye''])]\<rparr>"

definition demo_self :: "nat clusterer" where
  "demo_self =
     \<lparr>model = Some ''weights.h5'',
      AUDIO_OUTPUT_DIR = ''./output_dir/demo/audio_segments'',
      sentence_df = demo_df\<rparr>"

definition demo_embedded_df :: "nat dataframe" where
  "demo_embedded_df =
     \<lparr>index = 2,
      columns = [(''hash'', [StrCell ''a'', StrCell ''b'']),
                 (''sentence'', [StrCell ''hello'', StrCell ''bye'']),
                 (''embedding'', [VecCell [1, 2], VecCell [3, 4]])]\<rparr>"

definition demo_embedded :: "nat clusterer" where
  "demo_embedded =
     \<lparr>model = Some ''weights.h5'',
      AUDIO_OUTPUT_DIR = ''./output_dir/demo/audio_segments'',
      sentence_df = demo_embedded_df\<rparr>"

definition demo_empty :: "nat clusterer" where
  "demo_empty =
     \<lparr>model = Some ''weights.h5'',
      AUDIO_OUTPUT_DIR = ''./output_dir/demo/audio_segments'',
      sentence_df = \<lparr>index = 0, columns = [(''hash'', []), (''sentence'', [])]\<rparr>\<rparr>"

text \<open>
  The table of \<open>demo_embedded\<close> after clustering into two clusters; a second instance,
  of another project, with other hashes, a stale \<open>label\<close> column and the same
  embeddings; and an instance whose table has the columns and no row.
\<close>

definition demo_labelled_df :: "nat dataframe" where
  "demo_labelled_df =
     \<lparr>index = 2,
      columns = [(''hash'', [StrCell ''a'', StrCell ''b'']),
                 (''sentence'', [StrCell ''hello'', StrCell ''bye'']),
                 (''embedding'', [VecCell [1, 2], VecCell [3, 4]]),
                 (''label'', [IntCell 0, IntCell 0])]\<rparr>"

definition demo_other :: "nat clusterer" where
  "demo_other =
     \<lparr>model = Some ''weights.h5'',
      AUDIO_OUTPUT_DIR = ''./output_dir/other/audio_segments'',
      sentence_df =
        \<lparr>index = 2,
         columns = [(''hash'', [StrCell ''c'', StrCell ''d'']),
                    (''label'', [IntCell 7, IntCell 7]),
                    (''embedding'', [VecCell [1, 2], VecCell [3, 4]])]\<rparr>\<rparr>"

definition demo_no_rows :: "nat clusterer" where
  "demo_no_rows =
     \<lparr>model = Some ''weights.h5'',
      AUDIO_OUTPUT_DIR = ''./output_dir/demo/audio_segments'',
      sentence_df =
        \<lparr>index = 0, columns = [(''hash'', []), (''sentence'', []), (''embedding'', [])]\<rparr>\<rparr>"

section \<open>Properties\<close>

subsection \<open>Helper facts\<close>

lemma model_unbound: "\<not> bound_name [''self'', ''h'', ''mfcc'', ''embedding''] ''model''"
  by (simp add: bound_name_def module_globals_def)

lemma self_unbound: "generate_scatter_3d_body = (Inl (NameError ''self''), [])"
  by (simp add: generate_scatter_3d_body_def generate_scatter_3d_locals_def bound_name_def
      module_globals_def)

lemma vec_rows_map: "vec_rows (map VecCell rows) = Some rows"
  by (induction rows) simp_all

lemma np_array_rect:
  assumes "list_all (\<lambda>v. length v = d) rows"
  shows "np_array ext (map VecCell rows) = Inr (Matrix rows)"
proof -
  have "list_all (\<lambda>r. length r = length (hd rows)) rows"
  proof (cases rows)
    case Nil
    then show ?thesis by simp
  next
    case (Cons v vs)
    with assms show ?thesis by (auto simp: list_all_iff)
  qed
  then show ?thesis by (simp add: np_array_def vec_rows_map)
qed

lemma get_after_set_same:
  "set_column df c vs = Inr df' \<Longrightarrow> get_column df' c = Inr vs"
  by (auto simp: set_column_def get_column_def update_conv' split: if_splits)

lemma get_after_set_other:
  "set_column df c vs = Inr df' \<Longrightarrow> c' \<noteq> c \<Longrightarrow> get_column df' c' = get_column df c'"
  by (auto simp: set_column_def get_column_def update_conv' split: if_splits)

lemma index_after_set: "set_column df c vs = Inr df' \<Longrightarrow> index df' = index df"
  by (auto simp: set_column_def split: if_splits)

lemma filter_update_other:
  "filter (\<lambda>p. fst p \<noteq> k) (AList.update k v al) = filter (\<lambda>p. fst p \<noteq> k) al"
  by (induction al) auto

lemma others_after_set:
  "set_column df c vs = Inr df' \<Longrightarrow>
   filter (\<lambda>p. fst p \<noteq> c) (columns df') = filter (\<lambda>p. fst p \<noteq> c) (columns df)"
  by (auto simp: set_column_def filter_update_other split: if_splits)

lemma wf_column_length:
  assumes "wf_df df" "get_column df c = Inr col"
  shows "length col = index df"
proof -
  from assms(2) have "map_of (columns df) c = Some col"
    by (auto simp: get_column_def split: option.splits)
  then have "(c, col) \<in> set (columns df)" by (rule map_of_SomeD)
  with assms(1) show ?thesis by (auto simp: wf_df_def list_all_iff)
qed

lemma wf_after_set:
  assumes "wf_df df" "set_column df c vs = Inr df'"
  shows "wf_df df'"
proof -
  from assms(2) have len: "length vs = index df"
    and cols: "columns df' = AList.update c vs (columns df)" and idx: "index df' = index df"
    by (auto simp: set_column_def split: if_splits)
  have "set (AList.update c vs al) \<subseteq> insert (c, vs) (set al)" for al :: "(string \<times> 'a cell list) list"
    by (induction al) auto
  then have "set (AList.update c vs (columns df)) \<subseteq> insert (c, vs) (set (columns df))" .
  with assms(1) len have "list_all (\<lambda>p. length (snd p) = index df) (AList.update c vs (columns df))"
    by (fastforce simp: wf_df_def list_all_iff)
  moreover from assms(1) have "distinct (map fst (AList.update c vs (columns df)))"
    by (simp add: wf_df_def distinct_update)
  ultimately show ?thesis by (simp add: wf_df_def cols idx)
qed

lemma cluster_cases:
  "cluster ext self k r =
     (case get_column (sentence_df self) ''embedding'' of
        Inl e \<Rightarrow> (Inl e, self, [])
      | Inr col \<Rightarrow>
          (case np_array ext col of
             Inl e \<Rightarrow> (Inl e, self, [])
           | Inr X \<Rightarrow>
               (case kmeans_fit ext k r X of
                  Inl msg \<Rightarrow> (Inl (Raised ClusteringLib msg), self, [FitKMeans k r])
                | Inr (labels, kmeans) \<Rightarrow>
                    (case set_column (sentence_df self) ''label'' (map IntCell labels) of
                       Inl e \<Rightarrow> (Inl e, self, [FitKMeans k r])
                     | Inr df' \<Rightarrow>
                         (Inr (df', kmeans), self\<lparr>sentence_df := df'\<rparr>,
                          [FitKMeans k r])))))"
  by (simp add: cluster_def embeddings_of_def split: sum.splits)

lemma cluster_success:
  assumes "cluster ext self k r = (Inr (df', km), self', evs)"
  shows "\<exists>col X labels. get_column (sentence_df self) ''embedding'' = Inr col \<and>
           np_array ext col = Inr X \<and> kmeans_fit ext k r X = Inr (labels, km) \<and>
           set_column (sentence_df self) ''label'' (map IntCell labels) = Inr df' \<and>
           self' = self\<lparr>sentence_df := df'\<rparr> \<and> evs = [FitKMeans k r]"
  using assms by (auto simp: cluster_cases split: sum.splits prod.splits)

lemma cluster_labels_cong:
  assumes wf1: "wf_df (sentence_df s1)" and wf2: "wf_df (sentence_df s2)"
    and emb: "get_column (sentence_df s1) ''embedding'' = get_column (sentence_df s2) ''embedding''"
  shows "assigned_labels (cluster ext s1 k r) = assigned_labels (cluster ext s2 k r)"
proof (cases "get_column (sentence_df s1) ''embedding''")
  case (Inl e)
  moreover from Inl emb have "get_column (sentence_df s2) ''embedding'' = Inl e" by simp
  ultimately show ?thesis by (simp add: assigned_labels_def cluster_cases)
next
  case (Inr col)
  with emb have c2: "get_column (sentence_df s2) ''embedding'' = Inr col" by simp
  have idx: "index (sentence_df s1) = index (sentence_df s2)"
    using wf_column_length [OF wf1 Inr] wf_column_length [OF wf2 c2] by simp
  show ?thesis
  proof (cases "np_array ext col")
    case (Inl e)
    with Inr c2 show ?thesis by (simp add: assigned_labels_def cluster_cases)
  next
    case arr: (Inr X)
    show ?thesis
    proof (cases "kmeans_fit ext k r X")
      case (Inl msg)
      with Inr c2 arr show ?thesis by (simp add: assigned_labels_def cluster_cases)
    next
      case fit: (Inr res)
      obtain labels km where res: "res = (labels, km)" by (cases res)
      show ?thesis
      proof (cases "length labels = index (sentence_df s1)")
        case True
        with idx Inr c2 arr fit res show ?thesis
          by (simp add: assigned_labels_def cluster_cases set_column_def get_column_def
              update_conv')
      next
        case False
        with idx Inr c2 arr fit res show ?thesis
          by (simp add: assigned_labels_def cluster_cases set_column_def)
      qed
    qed
  qed
qed

lemma cluster_keeps_embeddings:
  assumes "wf_df (sentence_df s)"
  shows "wf_df (sentence_df (fst (snd (cluster ext s k r)))) \<and>
         get_column (sentence_df (fst (snd (cluster ext s k r)))) ''embedding'' =
           get_column (sentence_df s) ''embedding''"
proof (cases "fst (cluster ext s k r)")
  case (Inl e)
  then have "fst (snd (cluster ext s k r)) = s"
    by (auto simp: cluster_cases split: sum.splits prod.splits)
  with assms show ?thesis by simp
next
  case (Inr res)
  obtain df' km where res: "res = (df', km)" by (cases res)
  obtain s' evs where run: "cluster ext s k r = (Inr (df', km), s', evs)"
    using Inr res by (cases "cluster ext s k r") auto
  from cluster_success [OF run] obtain col labels where
    st: "set_column (sentence_df s) ''label'' (map IntCell labels) = Inr df'"
    and s': "s' = s\<lparr>sentence_df := df'\<rparr>" by blast
  have "wf_df df'" using assms st by (rule wf_after_set)
  moreover have "get_column df' ''embedding'' = get_column (sentence_df s) ''embedding''"
    using st by (rule get_after_set_other) simp
  ultimately show ?thesis using run s' by simp
qed

lemma demo_embedded_run:
  "cluster demo_ext demo_embedded 2 123 =
     (Inr (demo_labelled_df, ()), demo_embedded\<lparr>sentence_df := demo_labelled_df\<rparr>,
      [FitKMeans 2 123])"
  by (simp add: cluster_cases demo_ext_def demo_embedded_def demo_embedded_df_def
      demo_labelled_df_def get_column_def set_column_def np_array_def)

lemma generate_embedding_events:
  "snd (generate_embedding ext self h) = [ReadAudio (segment_path ext self h)]"
  by (simp add: generate_embedding_def Let_def model_unbound split: sum.splits)

lemma generate_embedding_missing:
  "read_mfcc ext (segment_path ext self h) (SAMPLE_RATE ext) = Inl msg \<Longrightarrow>
   generate_embedding ext self h =
     (Inl (Raised AudioReader msg), [ReadAudio (segment_path ext self h)])"
  by (simp add: generate_embedding_def Let_def)

lemma applymap_events:
  "list_all audio_read (snd (applymap (generate_embedding ext self) hs))"
proof (induction hs)
  case Nil
  then show ?case by simp
next
  case (Cons h hs)
  obtain r evs where g: "generate_embedding ext self h = (r, evs)"
    by (cases "generate_embedding ext self h")
  with generate_embedding_events [of ext self h] have evs: "list_all audio_read evs" by simp
  obtain r' evs' where a: "applymap (generate_embedding ext self) hs = (r', evs')"
    by (cases "applymap (generate_embedding ext self) hs")
  with Cons.IH have "list_all audio_read evs'" by simp
  with evs g a show ?case by (cases r; cases r') simp_all
qed

lemma generate_embedding_never_returns: "fst (generate_embedding ext self h) \<noteq> Inr v"
  by (simp add: generate_embedding_def Let_def model_unbound split: sum.splits)

lemma applymap_returns_only_empty:
  assumes "fst (applymap (generate_embedding ext self) hs) = Inr vs"
  shows "hs = []"
proof (cases hs)
  case Nil
  then show ?thesis .
next
  case (Cons x xs)
  obtain r evs where g: "generate_embedding ext self x = (r, evs)"
    by (cases "generate_embedding ext self x")
  with generate_embedding_never_returns [of ext self x] obtain e where "r = Inl e"
    by (cases r) auto
  with g Cons assms show ?thesis by simp
qed

lemma get_embeddings_cases:
  "get_embeddings ext self =
     (case get_column (sentence_df self) ''hash'' of
        Inl e \<Rightarrow> (Inl e, self, [])
      | Inr hs \<Rightarrow>
          (case fst (applymap (generate_embedding ext self) hs) of
             Inl e \<Rightarrow> (Inl e, self, snd (applymap (generate_embedding ext self) hs))
           | Inr vs \<Rightarrow>
               (case set_column (sentence_df self) ''embedding'' vs of
                  Inl e \<Rightarrow> (Inl e, self, snd (applymap (generate_embedding ext self) hs))
                | Inr df' \<Rightarrow>
                    (Inr df', self\<lparr>sentence_df := df'\<rparr>,
                     snd (applymap (generate_embedding ext self) hs)))))"
  by (simp add: get_embeddings_def split: sum.splits prod.splits)

lemma get_embeddings_after:
  assumes "get_embeddings ext self = (res, self', evs)"
  shows "list_all audio_read evs \<and>
         (self' = self \<or>
          (\<exists>vs df'. set_column (sentence_df self) ''embedding'' vs = Inr df' \<and>
             res = Inr df' \<and> self' = self\<lparr>sentence_df := df'\<rparr>))"
proof (cases "get_column (sentence_df self) ''hash''")
  case (Inl e)
  with assms show ?thesis by (auto simp: get_embeddings_cases)
next
  case (Inr hs)
  have ev: "list_all audio_read (snd (applymap (generate_embedding ext self) hs))"
    by (rule applymap_events)
  show ?thesis
  proof (cases "fst (applymap (generate_embedding ext self) hs)")
    case (Inl e)
    with assms Inr ev show ?thesis by (auto simp: get_embeddings_cases)
  next
    case vs: (Inr vs)
    show ?thesis
    proof (cases "set_column (sentence_df self) ''embedding'' vs")
      case (Inl e)
      with assms Inr vs ev show ?thesis by (auto simp: get_embeddings_cases)
    next
      case st: (Inr df')
      with assms Inr vs ev have "res = Inr df'" "self' = self\<lparr>sentence_df := df'\<rparr>"
        "list_all audio_read evs"
        by (auto simp: get_embeddings_cases)
      with st show ?thesis by blast
    qed
  qed
qed

lemma cluster_after:
  assumes "cluster ext self k r = (res, self', evs)"
  shows "self' = self \<or>
         (\<exists>vs df'. set_column (sentence_df self) ''label'' vs = Inr df' \<and>
            self' = self\<lparr>sentence_df := df'\<rparr>)"
  using assms by (auto simp: cluster_cases split: sum.splits prod.splits)

lemma set_column_frame:
  assumes "set_column df c vs = Inr df'"
  shows "index df' = index df \<and>
         filter (\<lambda>p. fst p \<noteq> c) (columns df') = filter (\<lambda>p. fst p \<noteq> c) (columns df) \<and>
         (\<forall>c'. c' \<noteq> c \<longrightarrow> get_column df' c' = get_column df c')"
  using assms index_after_set others_after_set get_after_set_other by blast

lemma demo_empty_run:
  "get_embeddings demo_ext demo_empty =
     (Inr (sentence_df demo_no_rows), demo_empty\<lparr>sentence_df := sentence_df demo_no_rows\<rparr>, [])"
  by (simp add: get_embeddings_def demo_empty_def demo_no_rows_def get_column_def set_column_def)

subsection \<open>The segment resolver\<close>

text \<open>
  C9. For every project name and every hash \<open>h\<close>, an instance constructed for the project
  resolves \<open>h\<close> to exactly \<open>./output_dir/{project_name}/audio_segments/{h}_vocals.wav\<close>,
  whatever the table and the weights are, and this is the file \<open>__generate_embedding\<close>
  reads for \<open>h\<close>.
\<close>

theorem segment_path_convention:
  assumes "fst (init ext project_name df model_path) = Inr self"
  shows "segment_path ext self (StrCell h) =
           ''./output_dir/'' @ project_name @ ''/audio_segments/'' @ h @ ''_vocals.wav'' \<and>
         snd (generate_embedding ext self (StrCell h)) =
           [ReadAudio (''./output_dir/'' @ project_name @ ''/audio_segments/'' @ h @ ''_vocals.wav'')]"
proof -
  from assms
  have "AUDIO_OUTPUT_DIR self = ''./output_dir/'' @ project_name @ ''/audio_segments''"
    by (auto simp: init_def Let_def split: option.splits)
  then have p: "segment_path ext self (StrCell h) =
           ''./output_dir/'' @ project_name @ ''/audio_segments/'' @ h @ ''_vocals.wav''"
    by (simp add: segment_path_def)
  have "snd (generate_embedding ext self (StrCell h)) =
          [ReadAudio (segment_path ext self (StrCell h))]"
    by (simp add: generate_embedding_def Let_def model_unbound split: sum.splits)
  with p show ?thesis by simp
qed

theorem segment_path_convention_witness:
  "fst (init demo_ext ''demo'' demo_df (Some ''weights.h5'')) = Inr demo_self \<and>
   segment_path demo_ext demo_self (StrCell ''a'') =
     ''./output_dir/demo/audio_segments/a_vocals.wav'' \<and>
   snd (generate_embedding demo_ext demo_self (StrCell ''a'')) =
     [ReadAudio ''./output_dir/demo/audio_segments/a_vocals.wav'']"
proof -
  have h: "fst (init demo_ext ''demo'' demo_df (Some ''weights.h5'')) = Inr demo_self"
    by (simp add: init_def Let_def demo_ext_def demo_self_def)
  show ?thesis
    using h segment_path_convention [OF h, of "''a''"] by simp
qed

subsection \<open>Construction\<close>

text \<open>
  C7. When loading the weight file fails (the explicit \<open>model_path\<close> when one is given,
  the default \<open>./pretrained_models/ResCNN_triplet_training_checkpoint_265.h5\<close> otherwise),
  the construction itself fails with the loader's exception: no instance is returned on
  which an embedding call could fail later.
\<close>

theorem init_fails_when_weights_fail:
  assumes "load_weights ext (case model_path of Some p \<Rightarrow> p | None \<Rightarrow> default_model_path)
             = Some msg"
  shows "init ext project_name df model_path =
           (Inl (Raised WeightLoader msg),
            [LoadWeights (case model_path of Some p \<Rightarrow> p | None \<Rightarrow> default_model_path)])"
  using assms by (simp add: init_def Let_def)

theorem init_fails_when_weights_fail_witness:
  "load_weights demo_ext default_model_path = Some ''No such file'' \<and>
   init demo_ext ''demo'' demo_df None =
     (Inl (Raised WeightLoader ''No such file''),
      [LoadWeights ''./pretrained_models/ResCNN_triplet_training_checkpoint_265.h5''])"
proof -
  have h: "load_weights demo_ext
             (case None of Some p \<Rightarrow> p | None \<Rightarrow> default_model_path) = Some ''No such file''"
    by (simp add: demo_ext_def default_model_path_def)
  show ?thesis
    using h init_fails_when_weights_fail [OF h, of "''demo''" demo_df]
    by (simp add: default_model_path_def)
qed

subsection \<open>The scatter plot\<close>

text \<open>
  C10. Every call of \<open>generate_scatter_3d\<close> on an instance, with any positional and
  keyword arguments, raises \<open>TypeError\<close> while the arguments are bound: the instance is
  what it was, and nothing has been projected or shown.
\<close>

theorem generate_scatter_3d_raises_TypeError:
  "\<exists>msg. call_generate_scatter_3d self n_args kwargs = (Inl (TypeError msg), self, [])"
  by (simp add: call_generate_scatter_3d_def generate_scatter_3d_params_def)

text \<open>
  C8. Calling the visualizer on an instance leaves the instance's table as it was: its
  rows and its columns, names and values, are the same after the call.
\<close>

theorem generate_scatter_3d_keeps_collection:
  "sentence_df (fst (snd (call_generate_scatter_3d self n_args kwargs))) = sentence_df self"
  by (simp add: call_generate_scatter_3d_def generate_scatter_3d_params_def)

subsection \<open>Clustering\<close>

text \<open>
  C1. Two runs of \<open>cluster\<close> with the same embeddings, the same \<open>n_clusters\<close> and the same
  seed assign the same labels: whatever else the two tables hold (other hashes and
  sentences, labels of an earlier run), and in particular when the second run is a second
  call on the same instance. The clustering routine is a function of the number of
  clusters, the seed and the matrix; an integer seed is what makes it one.
\<close>

theorem cluster_deterministic:
  assumes "wf_df (sentence_df s1)" and "wf_df (sentence_df s2)"
    and "get_column (sentence_df s1) ''embedding'' = get_column (sentence_df s2) ''embedding''"
  shows "assigned_labels (cluster ext s1 n_clusters seed) =
           assigned_labels (cluster ext s2 n_clusters seed) \<and>
         assigned_labels (cluster ext (fst (snd (cluster ext s1 n_clusters seed))) n_clusters seed) =
           assigned_labels (cluster ext s1 n_clusters seed)"
proof -
  note again = cluster_keeps_embeddings [OF assms(1), of ext n_clusters seed]
  have "assigned_labels (cluster ext (fst (snd (cluster ext s1 n_clusters seed))) n_clusters seed) =
          assigned_labels (cluster ext s1 n_clusters seed)"
    using again assms(1) by (intro cluster_labels_cong) simp_all
  moreover have "assigned_labels (cluster ext s1 n_clusters seed) =
           assigned_labels (cluster ext s2 n_clusters seed)"
    using assms by (rule cluster_labels_cong)
  ultimately show ?thesis by simp
qed

theorem cluster_deterministic_witness:
  "wf_df (sentence_df demo_embedded) \<and> wf_df (sentence_df demo_other) \<and>
   get_column (sentence_df demo_embedded) ''embedding'' =
     get_column (sentence_df demo_other) ''embedding'' \<and>
   assigned_labels (cluster demo_ext demo_embedded 2 123) = Inr [IntCell 0, IntCell 0] \<and>
   assigned_labels (cluster demo_ext demo_other 2 123) = Inr [IntCell 0, IntCell 0]"
proof -
  have h1: "wf_df (sentence_df demo_embedded)"
    by (simp add: wf_df_def demo_embedded_def demo_embedded_df_def)
  have h2: "wf_df (sentence_df demo_other)"
    by (simp add: wf_df_def demo_other_def)
  have h3: "get_column (sentence_df demo_embedded) ''embedding'' =
     get_column (sentence_df demo_other) ''embedding''"
    by (simp add: get_column_def demo_embedded_def demo_embedded_df_def demo_other_def)
  have run: "assigned_labels (cluster demo_ext demo_embedded 2 123) = Inr [IntCell 0, IntCell 0]"
    by (simp add: demo_embedded_run assigned_labels_def get_column_def demo_labelled_df_def)
  show ?thesis
    using h1 h2 h3 run cluster_deterministic [OF h1 h2 h3, of demo_ext 2 123] by simp
qed

text \<open>
  C3, as the specification states it, asks for a parameter error raised before the
  clustering routine is called. With two records and five clusters the routine is called,
  and the exception that reaches the caller is the routine's.
\<close>

theorem cluster_no_parameter_check_counterexample:
  "int (index (sentence_df demo_embedded)) < 5 \<and>
   cluster demo_ext demo_embedded 5 123 =
     (Inl (Raised ClusteringLib ''n_samples should be >= n_clusters''), demo_embedded,
      [FitKMeans 5 123])"
  by (simp add: cluster_cases demo_ext_def demo_embedded_def demo_embedded_df_def
      get_column_def np_array_def)

text \<open>
  C3, amended. \<open>cluster\<close> checks nothing itself: once the column \<open>embedding\<close> is read, the
  clustering routine is called with the given number of clusters and seed, and when the
  routine rejects them (more clusters than records, no records) its exception reaches the
  caller unchanged, the table being what it was.
\<close>

theorem cluster_propagates_library_rejection:
  assumes "embeddings_of ext self = Inr X" and "kmeans_fit ext n_clusters seed X = Inl msg"
  shows "cluster ext self n_clusters seed =
           (Inl (Raised ClusteringLib msg), self, [FitKMeans n_clusters seed])"
  using assms by (simp add: cluster_def)

theorem cluster_propagates_library_rejection_witness:
  "embeddings_of demo_ext demo_no_rows = Inr (Matrix []) \<and>
   kmeans_fit demo_ext 1 123 (Matrix []) = Inl ''Expected 2D array, got 1D array instead'' \<and>
   cluster demo_ext demo_no_rows 1 123 =
     (Inl (Raised ClusteringLib ''Expected 2D array, got 1D array instead''), demo_no_rows,
      [FitKMeans 1 123])"
proof -
  have h1: "embeddings_of demo_ext demo_no_rows = Inr (Matrix [])"
    by (simp add: embeddings_of_def demo_no_rows_def get_column_def np_array_def)
  have h2: "kmeans_fit demo_ext 1 123 (Matrix []) = Inl ''Expected 2D array, got 1D array instead''"
    by (simp add: demo_ext_def)
  show ?thesis
    using h1 h2 cluster_propagates_library_rejection [OF h1 h2] by simp
qed

text \<open>
  C6. When every record has an embedding, all of one width, the matrix \<open>cluster\<close> hands to
  the clustering routine has one row per record, row \<open>i\<close> being the embedding of the
  \<open>i\<close>-th record, and the column \<open>label\<close> it stores holds the routine's labels in the
  same order, one per record, beside the unchanged embeddings. The labels of the routine
  lie in \<open>[0, n_clusters)\<close> (its contract, taken as a hypothesis), and so do the labels
  assigned.
\<close>

theorem cluster_labels_in_record_order:
  assumes wf: "wf_df (sentence_df self)"
    and emb: "get_column (sentence_df self) ''embedding'' = Inr (map VecCell rows)"
    and rect: "list_all (\<lambda>v. length v = d) rows"
    and lib: "\<forall>labels km. kmeans_fit ext n_clusters seed (Matrix rows) = Inr (labels, km)
                \<longrightarrow> list_all (\<lambda>l. 0 \<le> l \<and> l < n_clusters) labels"
    and run: "cluster ext self n_clusters seed = (Inr (df', kmeans), self', evs)"
  shows "embeddings_of ext self = Inr (Matrix rows) \<and>
         length rows = index (sentence_df self) \<and>
         (\<exists>labels. kmeans_fit ext n_clusters seed (Matrix rows) = Inr (labels, kmeans) \<and>
             length labels = length rows \<and>
             get_column df' ''label'' = Inr (map IntCell labels) \<and>
             list_all (\<lambda>l. 0 \<le> l \<and> l < n_clusters) labels) \<and>
         get_column df' ''embedding'' = Inr (map VecCell rows) \<and>
         sentence_df self' = df'"
proof -
  have X: "embeddings_of ext self = Inr (Matrix rows)"
    using emb np_array_rect [OF rect] by (simp add: embeddings_of_def)
  have n: "length rows = index (sentence_df self)"
    using wf_column_length [OF wf emb] by simp
  from cluster_success [OF run] emb np_array_rect [OF rect, of ext] obtain labels where
    fit': "kmeans_fit ext n_clusters seed (Matrix rows) = Inr (labels, kmeans)"
    and st: "set_column (sentence_df self) ''label'' (map IntCell labels) = Inr df'"
    and s': "self' = self\<lparr>sentence_df := df'\<rparr>" by auto
  from st have len: "length labels = index (sentence_df self)"
    by (auto simp: set_column_def split: if_splits)
  have lab: "get_column df' ''label'' = Inr (map IntCell labels)"
    using st by (rule get_after_set_same)
  have keep: "get_column df' ''embedding'' = Inr (map VecCell rows)"
    using get_after_set_other [OF st, of "''embedding''"] emb by simp
  from lib fit' have "list_all (\<lambda>l. 0 \<le> l \<and> l < n_clusters) labels" by blast
  with X n fit' len lab keep s' show ?thesis by auto
qed

theorem cluster_labels_in_record_order_witness:
  "wf_df (sentence_df demo_embedded) \<and>
   get_column (sentence_df demo_embedded) ''embedding'' = Inr (map VecCell [[1, 2], [3, 4]]) \<and>
   list_all (\<lambda>v. length v = 2) [[1, 2], [3, 4 :: nat]] \<and>
   cluster demo_ext demo_embedded 2 123 =
     (Inr (demo_labelled_df, ()), demo_embedded\<lparr>sentence_df := demo_labelled_df\<rparr>,
      [FitKMeans 2 123]) \<and>
   embeddings_of demo_ext demo_embedded = Inr (Matrix [[1, 2], [3, 4]]) \<and>
   length [[1, 2], [3, 4 :: nat]] = index (sentence_df demo_embedded) \<and>
   (\<exists>labels. kmeans_fit demo_ext 2 123 (Matrix [[1, 2], [3, 4]]) = Inr (labels, ()) \<and>
      length labels = length [[1, 2], [3, 4 :: nat]] \<and>
      get_column demo_labelled_df ''label'' = Inr (map IntCell labels) \<and>
      list_all (\<lambda>l. 0 \<le> l \<and> l < 2) labels) \<and>
   get_column demo_labelled_df ''label'' = Inr [IntCell 0, IntCell 0]"
proof -
  have h1: "wf_df (sentence_df demo_embedded)"
    by (simp add: wf_df_def demo_embedded_def demo_embedded_df_def)
  have h2: "get_column (sentence_df demo_embedded) ''embedding''
              = Inr (map VecCell [[1, 2], [3, 4]])"
    by (simp add: get_column_def demo_embedded_def demo_embedded_df_def)
  have h3: "list_all (\<lambda>v. length v = 2) [[1, 2], [3, 4 :: nat]]" by simp
  have h4: "\<forall>labels km. kmeans_fit demo_ext 2 123 (Matrix [[1, 2], [3, 4]]) = Inr (labels, km)
                \<longrightarrow> list_all (\<lambda>l. 0 \<le> l \<and> l < 2) labels"
    by (auto simp: demo_ext_def)
  note inst = cluster_labels_in_record_order [OF h1 h2 h3 h4 demo_embedded_run]
  have lab: "get_column demo_labelled_df ''label'' = Inr [IntCell 0, IntCell 0]"
    by (simp add: get_column_def demo_labelled_df_def)
  from h1 h2 h3 demo_embedded_run inst lab show ?thesis by blast
qed

subsection \<open>Embeddings\<close>

text \<open>
  C2. The embedding of a record whose segment file exists and is long enough is meant to
  be a vector of length 512 (the comment before \<open>predict\<close>, \<open>reshape((512,))\<close>). The
  method does not get that far: once the file is read and the frame window sampled, the
  name \<open>model\<close> is evaluated and \<open>NameError\<close> is raised, for every such record.
\<close>

theorem generate_embedding_raises_NameError:
  assumes "read_mfcc ext (segment_path ext self h) (SAMPLE_RATE ext) = Inr audio"
    and "sample_from_mfcc ext audio (NUM_FRAMES ext) = Inr mfcc"
  shows "generate_embedding ext self h =
           (Inl (NameError ''model''), [ReadAudio (segment_path ext self h)])"
  using assms by (simp add: generate_embedding_def Let_def bound_name_def module_globals_def)

theorem generate_embedding_raises_NameError_witness:
  "read_mfcc demo_ext (segment_path demo_ext demo_self (StrCell ''a'')) (SAMPLE_RATE demo_ext) =
     Inr 300 \<and>
   sample_from_mfcc demo_ext 300 (NUM_FRAMES demo_ext) = Inr 160 \<and>
   generate_embedding demo_ext demo_self (StrCell ''a'') =
     (Inl (NameError ''model''), [ReadAudio ''./output_dir/demo/audio_segments/a_vocals.wav''])"
proof -
  have h1: "read_mfcc demo_ext (segment_path demo_ext demo_self (StrCell ''a''))
              (SAMPLE_RATE demo_ext) = Inr 300"
    by (simp add: demo_ext_def segment_path_def demo_self_def)
  have h2: "sample_from_mfcc demo_ext 300 (NUM_FRAMES demo_ext) = Inr 160"
    by (simp add: demo_ext_def)
  have p: "segment_path demo_ext demo_self (StrCell ''a'') =
             ''./output_dir/demo/audio_segments/a_vocals.wav''"
    by (simp add: segment_path_def demo_self_def)
  from h1 h2 generate_embedding_raises_NameError [OF h1 h2] p show ?thesis by simp
qed

text \<open>
  C4. A record whose segment file is missing is meant to surface as an error of that
  record, naming the file, and a run that returns is meant to have embedded every record.
  The code does neither once the table begins with a record whose file can be read and
  sampled: \<open>get_embeddings\<close> raises \<open>NameError\<close> for \<open>model\<close> while that record is
  processed, having read that one file only, so the file of a later record is never
  looked for, missing or not. A run returns a table only when the table has no record
  at all. Both come from the one wrong name in \<open>__generate_embedding\<close>.
\<close>

theorem get_embeddings_raises_before_missing_segment:
  assumes hs: "get_column (sentence_df self) ''hash'' = Inr (h # rest)"
    and rd: "read_mfcc ext (segment_path ext self h) (SAMPLE_RATE ext) = Inr audio"
    and sm: "sample_from_mfcc ext audio (NUM_FRAMES ext) = Inr mfcc"
  shows "get_embeddings ext self =
           (Inl (NameError ''model''), self, [ReadAudio (segment_path ext self h)]) \<and>
         (fst (get_embeddings ext inst) = Inr df' \<longrightarrow>
            get_column (sentence_df inst) ''hash'' = Inr [] \<and> index (sentence_df inst) = 0)"
proof -
  from rd sm have "generate_embedding ext self h =
      (Inl (NameError ''model''), [ReadAudio (segment_path ext self h)])"
    by (simp add: generate_embedding_def Let_def model_unbound)
  with hs have first: "get_embeddings ext self =
           (Inl (NameError ''model''), self, [ReadAudio (segment_path ext self h)])"
    by (simp add: get_embeddings_def)
  have second: "get_column (sentence_df inst) ''hash'' = Inr [] \<and> index (sentence_df inst) = 0"
    if ok: "fst (get_embeddings ext inst) = Inr df'"
  proof (cases "get_column (sentence_df inst) ''hash''")
    case (Inl e)
    with ok show ?thesis by (simp add: get_embeddings_cases)
  next
    case col: (Inr cs)
    show ?thesis
    proof (cases "fst (applymap (generate_embedding ext inst) cs)")
      case (Inl e)
      with ok col show ?thesis by (simp add: get_embeddings_cases)
    next
      case vs: (Inr vs)
      then have "cs = []" by (rule applymap_returns_only_empty)
      with vs have "vs = []" by simp
      with ok col vs \<open>cs = []\<close> show ?thesis
        by (auto simp: get_embeddings_cases set_column_def split: if_splits)
    qed
  qed
  from first second show ?thesis by blast
qed

theorem get_embeddings_raises_before_missing_segment_witness:
  "get_column (sentence_df demo_self) ''hash'' = Inr [StrCell ''a'', StrCell ''b''] \<and>
   read_mfcc demo_ext (segment_path demo_ext demo_self (StrCell ''a'')) (SAMPLE_RATE demo_ext) =
     Inr 300 \<and>
   sample_from_mfcc demo_ext 300 (NUM_FRAMES demo_ext) = Inr 160 \<and>
   read_mfcc demo_ext (segment_path demo_ext demo_self (StrCell ''b'')) (SAMPLE_RATE demo_ext) =
     Inl ''No such file'' \<and>
   get_embeddings demo_ext demo_self =
     (Inl (NameError ''model''), demo_self,
      [ReadAudio ''./output_dir/demo/audio_segments/a_vocals.wav'']) \<and>
   fst (get_embeddings demo_ext demo_empty) = Inr (sentence_df demo_no_rows) \<and>
   get_column (sentence_df demo_empty) ''hash'' = Inr [] \<and>
   index (sentence_df demo_empty) = 0"
proof -
  have h1: "get_column (sentence_df demo_self) ''hash'' = Inr [StrCell ''a'', StrCell ''b'']"
    by (simp add: get_column_def demo_self_def demo_df_def)
  have h2: "read_mfcc demo_ext (segment_path demo_ext demo_self (StrCell ''a''))
              (SAMPLE_RATE demo_ext) = Inr 300"
    by (simp add: demo_ext_def segment_path_def demo_self_def)
  have h3: "sample_from_mfcc demo_ext 300 (NUM_FRAMES demo_ext) = Inr 160"
    by (simp add: demo_ext_def)
  have b: "read_mfcc demo_ext (segment_path demo_ext demo_self (StrCell ''b''))
             (SAMPLE_RATE demo_ext) = Inl ''No such file''"
    by (simp add: demo_ext_def segment_path_def demo_self_def)
  have p: "segment_path demo_ext demo_self (StrCell ''a'') =
             ''./output_dir/demo/audio_segments/a_vocals.wav''"
    by (simp add: segment_path_def demo_self_def)
  have ok: "fst (get_embeddings demo_ext demo_empty) = Inr (sentence_df demo_no_rows)"
    by (simp add: demo_empty_run)
  from h1 h2 h3 b p ok
    get_embeddings_raises_before_missing_segment
      [OF h1 h2 h3, of demo_empty "sentence_df demo_no_rows"]
  show ?thesis by simp
qed

subsection \<open>What the two stages leave alone\<close>

text \<open>
  C5. \<open>get_embeddings\<close> and \<open>cluster\<close> change nothing of the instance but its table,
  and nothing of the table but the column \<open>embedding\<close>, respectively \<open>label\<close>: the
  number of rows is the same, every other column is where it was with the values it
  had (so \<open>hash\<close> and \<open>sentence\<close>, and for \<open>cluster\<close> the embeddings), whether the
  call returns or raises. The only events of \<open>get_embeddings\<close> are reads of audio
  files.
\<close>

theorem embedder_and_clusterer_only_add_columns:
  assumes "get_embeddings ext self = (res, self', evs)"
    and "cluster ext inst n_clusters seed = (res2, inst', evs2)"
  shows "index (sentence_df self') = index (sentence_df self) \<and>
         filter (\<lambda>p. fst p \<noteq> ''embedding'') (columns (sentence_df self')) =
           filter (\<lambda>p. fst p \<noteq> ''embedding'') (columns (sentence_df self)) \<and>
         get_column (sentence_df self') ''hash'' = get_column (sentence_df self) ''hash'' \<and>
         get_column (sentence_df self') ''sentence'' = get_column (sentence_df self) ''sentence'' \<and>
         self' = self\<lparr>sentence_df := sentence_df self'\<rparr> \<and>
         list_all audio_read evs \<and>
         index (sentence_df inst') = index (sentence_df inst) \<and>
         filter (\<lambda>p. fst p \<noteq> ''label'') (columns (sentence_df inst')) =
           filter (\<lambda>p. fst p \<noteq> ''label'') (columns (sentence_df inst)) \<and>
         get_column (sentence_df inst') ''hash'' = get_column (sentence_df inst) ''hash'' \<and>
         get_column (sentence_df inst') ''sentence'' = get_column (sentence_df inst) ''sentence'' \<and>
         get_column (sentence_df inst') ''embedding'' = get_column (sentence_df inst) ''embedding'' \<and>
         inst' = inst\<lparr>sentence_df := sentence_df inst'\<rparr>"
proof -
  from get_embeddings_after [OF assms(1)]
  have ev: "list_all audio_read evs"
    and e: "self' = self \<or>
          (\<exists>vs df'. set_column (sentence_df self) ''embedding'' vs = Inr df' \<and>
             res = Inr df' \<and> self' = self\<lparr>sentence_df := df'\<rparr>)" by simp_all
  have E: "index (sentence_df self') = index (sentence_df self) \<and>
         filter (\<lambda>p. fst p \<noteq> ''embedding'') (columns (sentence_df self')) =
           filter (\<lambda>p. fst p \<noteq> ''embedding'') (columns (sentence_df self)) \<and>
         get_column (sentence_df self') ''hash'' = get_column (sentence_df self) ''hash'' \<and>
         get_column (sentence_df self') ''sentence'' = get_column (sentence_df self) ''sentence'' \<and>
         self' = self\<lparr>sentence_df := sentence_df self'\<rparr>"
    using e
  proof
    assume "self' = self"
    then show ?thesis by simp
  next
    assume "\<exists>vs df'. set_column (sentence_df self) ''embedding'' vs = Inr df' \<and>
             res = Inr df' \<and> self' = self\<lparr>sentence_df := df'\<rparr>"
    then obtain vs df' where st: "set_column (sentence_df self) ''embedding'' vs = Inr df'"
      and s': "self' = self\<lparr>sentence_df := df'\<rparr>" by blast
    from set_column_frame [OF st] s' show ?thesis by simp
  qed
  have C: "index (sentence_df inst') = index (sentence_df inst) \<and>
         filter (\<lambda>p. fst p \<noteq> ''label'') (columns (sentence_df inst')) =
           filter (\<lambda>p. fst p \<noteq> ''label'') (columns (sentence_df inst)) \<and>
         get_column (sentence_df inst') ''hash'' = get_column (sentence_df inst) ''hash'' \<and>
         get_column (sentence_df inst') ''sentence'' = get_column (sentence_df inst) ''sentence'' \<and>
         get_column (sentence_df inst') ''embedding'' = get_column (sentence_df inst) ''embedding'' \<and>
         inst' = inst\<lparr>sentence_df := sentence_df inst'\<rparr>"
    using cluster_after [OF assms(2)]
  proof
    assume "inst' = inst"
    then show ?thesis by simp
  next
    assume "\<exists>vs df'. set_column (sentence_df inst) ''label'' vs = Inr df' \<and>
            inst' = inst\<lparr>sentence_df := df'\<rparr>"
    then obtain vs df' where st: "set_column (sentence_df inst) ''label'' vs = Inr df'"
      and s': "inst' = inst\<lparr>sentence_df := df'\<rparr>" by blast
    from set_column_frame [OF st] s' show ?thesis by simp
  qed
  from E ev C show ?thesis by simp
qed

theorem embedder_and_clusterer_only_add_columns_witness:
  "get_embeddings demo_ext demo_empty =
     (Inr (sentence_df demo_no_rows), demo_empty\<lparr>sentence_df := sentence_df demo_no_rows\<rparr>, []) \<and>
   cluster demo_ext demo_embedded 2 123 =
     (Inr (demo_labelled_df, ()), demo_embedded\<lparr>sentence_df := demo_labelled_df\<rparr>,
      [FitKMeans 2 123]) \<and>
   index (sentence_df demo_no_rows) = index (sentence_df demo_empty) \<and>
   filter (\<lambda>p. fst p \<noteq> ''embedding'') (columns (sentence_df demo_no_rows)) =
     filter (\<lambda>p. fst p \<noteq> ''embedding'') (columns (sentence_df demo_empty)) \<and>
   index demo_labelled_df = index (sentence_df demo_embedded) \<and>
   filter (\<lambda>p. fst p \<noteq> ''label'') (columns demo_labelled_df) =
     filter (\<lambda>p. fst p \<noteq> ''label'') (columns (sentence_df demo_embedded)) \<and>
   get_column demo_labelled_df ''hash'' = get_column (sentence_df demo_embedded) ''hash'' \<and>
   get_column demo_labelled_df ''sentence'' = get_column (sentence_df demo_embedded) ''sentence''"
  using demo_empty_run demo_embedded_run
    embedder_and_clusterer_only_add_columns [OF demo_empty_run demo_embedded_run]
  by simp

end
